theory Spec2Isabelle
  imports Complex_Main "HOL-Library.Sublist"
begin

section \<open>Python values and library functions\<close>

text \<open>
  The two programs (\<^verbatim>\<open>meteor_api_model.py\<close>, \<^verbatim>\<open>meteor_csv_api.py\<close>) compute with Python
  floats. A finite float is modelled as a \<^typ>\<open>real\<close>: IEEE rounding and overflow are not
  part of the model, so the model returns a result also where the program raises
  OverflowError (a power of a very large diameter or velocity) or where rounding takes the
  argument of \<^verbatim>\<open>math.asin\<close> just above 1. The statements about the simulator and about the
  lookup on a non-empty table are therefore statements about every result that is
  returned. The one non-finite value the code creates itself, \<^verbatim>\<open>float('inf')\<close>, is a
  constructor of its own. Python strings are byte strings in UTF-8. Exceptions are values
  of \<open>py_error\<close>.
\<close>

datatype py_error = ValueError | TypeError | IndexError

datatype pyfloat = Finite real | Infinity

text \<open>\<^verbatim>\<open>x < y\<close> for a finite \<open>x\<close>, and \<^verbatim>\<open>x <= y\<close> for a finite \<open>y\<close>.\<close>

fun float_lt :: "real \<Rightarrow> pyfloat \<Rightarrow> bool" where
  "float_lt x (Finite y) = (x < y)"
| "float_lt x Infinity = True"

fun float_le :: "pyfloat \<Rightarrow> real \<Rightarrow> bool" where
  "float_le (Finite x) y = (x \<le> y)"
| "float_le Infinity y = False"

definition radians :: "real \<Rightarrow> real" where
  "radians d = d * (pi / 180)"

text \<open>\<^verbatim>\<open>math.sqrt\<close> and \<^verbatim>\<open>math.asin\<close> raise ValueError outside their domain.\<close>

definition math_sqrt :: "real \<Rightarrow> py_error + real" where
  "math_sqrt x = (if x < 0 then Inl ValueError else Inr (sqrt x))"

definition math_asin :: "real \<Rightarrow> py_error + real" where
  "math_asin x = (if x < - 1 \<or> 1 < x then Inl ValueError else Inr (arcsin x))"

text \<open>
  \<^verbatim>\<open>x ** y\<close> with a fractional exponent \<open>y\<close>. For a negative base Python returns a
  complex number; every use of such a value in \<^verbatim>\<open>simulate_meteor_impact\<close> reaches an
  ordering comparison (\<^verbatim>\<open>min\<close>, or \<^verbatim>\<open><=\<close> in the danger-zone test at the latest), which
  raises TypeError on a complex operand. The model raises it at the power.
\<close>

definition float_pow :: "real \<Rightarrow> real \<Rightarrow> py_error + real" where
  "float_pow x y = (if x < 0 then Inl TypeError else Inr (x powr y))"

text \<open>
  \<^verbatim>\<open>round(x, n)\<close> rounds to the nearest multiple of \<open>10 ^ - n\<close>, a tie going to the even
  neighbour; an infinity rounds to itself.
\<close>

definition round_half_even :: "real \<Rightarrow> int" where
  "round_half_even y =
     (let f = \<lfloor>y\<rfloor>; d = y - of_int f
      in if d < 1 / 2 then f
         else if 1 / 2 < d then f + 1
         else if even f then f else f + 1)"

definition py_round :: "real \<Rightarrow> nat \<Rightarrow> real" where
  "py_round x n = of_int (round_half_even (x * 10 ^ n)) / 10 ^ n"

fun py_round_float :: "pyfloat \<Rightarrow> nat \<Rightarrow> pyfloat" where
  "py_round_float (Finite x) n = Finite (py_round x n)"
| "py_round_float Infinity n = Infinity"

text \<open>\<^verbatim>\<open>int(x)\<close> truncates towards zero.\<close>

definition py_int :: "real \<Rightarrow> int" where
  "py_int x = (if 0 \<le> x then \<lfloor>x\<rfloor> else \<lceil>x\<rceil>)"

text \<open>\<^verbatim>\<open>xs[i]\<close>: a negative index counts from the end, out of range raises IndexError.\<close>

definition py_index :: "'a list \<Rightarrow> int \<Rightarrow> py_error + 'a" where
  "py_index xs i =
     (if 0 \<le> i \<and> i < int (length xs) then Inr (xs ! nat i)
      else if i < 0 \<and> - int (length xs) \<le> i then Inr (xs ! nat (int (length xs) + i))
      else Inl IndexError)"

section \<open>The population-center table\<close>

text \<open>
  \<^verbatim>\<open>MAJOR_CITIES\<close> is a dict from a city name to (latitude, longitude, population). A
  dict iterates in insertion order, and \<^verbatim>\<open>find_nearest_city\<close> depends on that order, so
  the table is an association list in the order of the source. The functions below take
  the table as an argument; the program passes \<open>MAJOR_CITIES\<close>.
\<close>

type_synonym city_table = "(string \<times> (real \<times> real \<times> int)) list"

definition MAJOR_CITIES :: city_table where
  "MAJOR_CITIES =
    [(''New York, USA'', (40.7128, -74.0060, 8336817)),
     (''Los Angeles, USA'', (34.0522, -118.2437, 3979576)),
     (''Chicago, USA'', (41.8781, -87.6298, 2693976)),
     (''Houston, USA'', (29.7604, -95.3698, 2320268)),
     (''Phoenix, USA'', (33.4484, -112.0740, 1680992)),
     (''Philadelphia, USA'', (39.9526, -75.1652, 1584064)),
     (''San Antonio, USA'', (29.4241, -98.4936, 1547253)),
     (''San Diego, USA'', (32.7157, -117.1611, 1423851)),
     (''Dallas, USA'', (32.7767, -96.7970, 1343573)),
     (''San Jose, USA'', (37.3382, -121.8863, 1021795)),
     (''Seattle, USA'', (47.6062, -122.3321, 753675)),
     (''Denver, USA'', (39.7392, -104.9903, 715522)),
     (''Boston, USA'', (42.3601, -71.0589, 692600)),
     (''Miami, USA'', (25.7617, -80.1918, 467963)),
     (''Las Vegas, USA'', (36.1699, -115.1398, 641903)),
     (''Toronto, Canada'', (43.6532, -79.3832, 2930000)),
     (''Montreal, Canada'', (45.5017, -73.5673, 1780000)),
     (''Vancouver, Canada'', (49.2827, -123.1207, 675218)),
     (''Mexico City, Mexico'', (19.4326, -99.1332, 9209944)),
     (''Guadalajara, Mexico'', (20.6597, -103.3496, 1495189)),
     (''S'' @ [CHR 0xC3, CHR 0xA3] @ ''o Paulo, Brazil'', (-23.5505, -46.6333, 12325232)),
     (''Rio de Janeiro, Brazil'', (-22.9068, -43.1729, 6748000)),
     (''Buenos Aires, Argentina'', (-34.6037, -58.3816, 3075646)),
     (''Lima, Peru'', (-12.0464, -77.0428, 9752000)),
     (''Bogot'' @ [CHR 0xC3, CHR 0xA1] @ '', Colombia'', (4.7110, -74.0721, 7412566)),
     (''Santiago, Chile'', (-33.4489, -70.6693, 5614000)),
     (''Caracas, Venezuela'', (10.4806, -66.9036, 2923959)),
     (''London, UK'', (51.5074, -0.1278, 8982000)),
     (''Paris, France'', (48.8566, 2.3522, 2161000)),
     (''Berlin, Germany'', (52.5200, 13.4050, 3769495)),
     (''Madrid, Spain'', (40.4168, -3.7038, 3223334)),
     (''Rome, Italy'', (41.9028, 12.4964, 2872800)),
     (''Amsterdam, Netherlands'', (52.3676, 4.9041, 821752)),
     (''Vienna, Austria'', (48.2082, 16.3738, 1911191)),
     (''Warsaw, Poland'', (52.2297, 21.0122, 1790658)),
     (''Stockholm, Sweden'', (59.3293, 18.0686, 975551)),
     (''Athens, Greece'', (37.9838, 23.7275, 664046)),
     (''Moscow, Russia'', (55.7558, 37.6173, 12506468)),
     (''Istanbul, Turkey'', (41.0082, 28.9784, 15462452)),
     (''Kyiv, Ukraine'', (50.4501, 30.5234, 2967360)),
     (''Tokyo, Japan'', (35.6762, 139.6503, 13960000)),
     (''Beijing, China'', (39.9042, 116.4074, 21540000)),
     (''Shanghai, China'', (31.2304, 121.4737, 27058480)),
     (''Mumbai, India'', (19.0760, 72.8777, 12442373)),
     (''Delhi, India'', (28.7041, 77.1025, 16753235)),
     (''Bangalore, India'', (12.9716, 77.5946, 8443675)),
     (''Seoul, South Korea'', (37.5665, 126.9780, 9776000)),
     (''Bangkok, Thailand'', (13.7563, 100.5018, 10539000)),
     (''Singapore'', (1.3521, 103.8198, 5685807)),
     (''Manila, Philippines'', (14.5995, 120.9842, 1780148)),
     (''Jakarta, Indonesia'', (-6.2088, 106.8456, 10562088)),
     (''Karachi, Pakistan'', (24.8607, 67.0011, 14910352)),
     (''Tehran, Iran'', (35.6892, 51.3890, 8693706)),
     (''Riyadh, Saudi Arabia'', (24.7136, 46.6753, 7676654)),
     (''Dubai, UAE'', (25.2048, 55.2708, 3331420)),
     (''Hong Kong'', (22.3193, 114.1694, 7496981)),
     (''Cairo, Egypt'', (30.0444, 31.2357, 9500000)),
     (''Lagos, Nigeria'', (6.5244, 3.3792, 14862000)),
     (''Johannesburg, South Africa'', (-26.2041, 28.0473, 5635127)),
     (''Nairobi, Kenya'', (-1.2864, 36.8172, 4397073)),
     (''Kinshasa, DR Congo'', (-4.4419, 15.2663, 14342000)),
     (''Casablanca, Morocco'', (33.5731, -7.5898, 3359818)),
     (''Addis Ababa, Ethiopia'', (9.0320, 38.7469, 3352000)),
     (''Sydney, Australia'', (-33.8688, 151.2093, 5312163)),
     (''Melbourne, Australia'', (-37.8136, 144.9631, 5078193)),
     (''Brisbane, Australia'', (-27.4698, 153.0251, 2560720)),
     (''Perth, Australia'', (-31.9505, 115.8605, 2125114)),
     (''Auckland, New Zealand'', (-36.8485, 174.7633, 1571718))]"

section \<open>Nearest city\<close>

text \<open>The body of the loop of \<^verbatim>\<open>find_nearest_city\<close>: the haversine distance in km.\<close>

definition haversine_distance :: "real \<Rightarrow> real \<Rightarrow> real \<Rightarrow> real \<Rightarrow> py_error + real" where
  "haversine_distance lat lon city_lat city_lon =
     (let R = 6371;
          dlat = radians (city_lat - lat);
          dlon = radians (city_lon - lon);
          a = (sin (dlat / 2))\<^sup>2
              + cos (radians lat) * cos (radians city_lat) * (sin (dlon / 2))\<^sup>2
      in case math_sqrt a of
           Inl e \<Rightarrow> Inl e
         | Inr s \<Rightarrow>
             (case math_asin s of
                Inl e \<Rightarrow> Inl e
              | Inr t \<Rightarrow> Inr (R * (2 * t))))"

text \<open>The loop, on the state (\<open>min_distance\<close>, \<open>nearest\<close>).\<close>

fun nearest_loop :: "city_table \<Rightarrow> real \<Rightarrow> real \<Rightarrow> pyfloat \<times> string \<Rightarrow> py_error + (pyfloat \<times> string)" where
  "nearest_loop [] lat lon st = Inr st"
| "nearest_loop ((city, (city_lat, city_lon, population)) # rest) lat lon (min_distance, nearest) =
     (case haversine_distance lat lon city_lat city_lon of
        Inl e \<Rightarrow> Inl e
      | Inr distance \<Rightarrow>
          nearest_loop rest lat lon
            (if float_lt distance min_distance then (Finite distance, city)
             else (min_distance, nearest)))"

definition find_nearest_city :: "city_table \<Rightarrow> real \<Rightarrow> real \<Rightarrow> py_error + (string \<times> pyfloat)" where
  "find_nearest_city cities lat lon =
     (case nearest_loop cities lat lon (Infinity, ''Unknown location'') of
        Inl e \<Rightarrow> Inl e
      | Inr (min_distance, nearest) \<Rightarrow> Inr (nearest, py_round_float min_distance 2))"

section \<open>Mitigation strategies of the interactive tool\<close>

text \<open>\<^verbatim>\<open>str(n)\<close> for an int, and the format \<^verbatim>\<open>{x:.1f}\<close>.\<close>

fun str_nat :: "nat \<Rightarrow> string" where
  "str_nat n =
     (if n < 10 then [char_of (48 + n)]
      else str_nat (n div 10) @ [char_of (48 + n mod 10)])"

definition str_int :: "int \<Rightarrow> string" where
  "str_int i = (if i < 0 then ''-'' @ str_nat (nat (- i)) else str_nat (nat i))"

definition format_1f :: "real \<Rightarrow> string" where
  "format_1f x =
     (let m = nat \<bar>round_half_even (x * 10)\<bar>
      in (if x < 0 then ''-'' else []) @ str_nat (m div 10) @ ''.'' @ str_nat (m mod 10))"

text \<open>The four f-strings of \<^verbatim>\<open>get_mitigation_strategy\<close>.\<close>

definition low_risk_text :: "string \<Rightarrow> string" where
  "low_risk_text nearest_city =
     ''[LOW RISK] - Airburst Alert Protocol\<newline>''
     @ ''        \<newline>''
     @ ''This meteor will likely burn up in the atmosphere or cause minimal ground damage.\<newline>''
     @ ''However, residents near ''
     @ nearest_city
     @ '' should be aware of potential:\<newline>''
     @ ''- Sonic booms and shockwaves\<newline>''
     @ ''- Bright flashes in the sky\<newline>''
     @ ''- Minor debris fallout\<newline>''
     @ ''\<newline>''
     @ ''RECOMMENDED ACTIONS:\<newline>''
     @ ''* Issue public awareness notice about atmospheric entry\<newline>''
     @ ''* Monitor trajectory for any deviations\<newline>''
     @ ''* Prepare emergency services for possible minor injuries\<newline>''
     @ ''* Secure loose objects and windows within 50km of predicted airburst\<newline>''
     @ ''* Educate public about meteor phenomena to prevent panic''"

definition moderate_risk_text :: "bool \<Rightarrow> string \<Rightarrow> real \<Rightarrow> string" where
  "moderate_risk_text city_affected nearest_city damage_radius_km =
     ''[MODERATE RISK] - Regional Evacuation Required\<newline>''
     @ ''        \<newline>''
     @ ''This meteor poses significant regional risk. The impact zone extends ''
     @ format_1f damage_radius_km
     @ '' km from the impact site.\<newline>''
     @ (if city_affected then ''[WARNING]: '' @ nearest_city @ '' is within the danger zone!''
         else ''Nearest city ('' @ nearest_city @ '') is outside immediate danger zone.'')
     @ ''\<newline>''
     @ ''\<newline>''
     @ ''RECOMMENDED ACTIONS:\<newline>''
     @ ''* Evacuate all residents within ''
     @ format_1f damage_radius_km
     @ '' km of impact coordinates\<newline>''
     @ ''* Establish emergency shelters at least ''
     @ format_1f (damage_radius_km * 1.5)
     @ '' km away\<newline>''
     @ ''* Deploy emergency response teams and medical units\<newline>''
     @ ''* Secure critical infrastructure (hospitals, power plants, water systems)\<newline>''
     @ ''* Issue emergency broadcasts and alerts\<newline>''
     @ ''* Prepare for blast wave damage, fires, and potential tsunamis (if ocean impact)\<newline>''
     @ ''* Coordinate with national disaster management agencies''"

definition high_risk_text :: "bool \<Rightarrow> string \<Rightarrow> real \<Rightarrow> string" where
  "high_risk_text city_affected nearest_city damage_radius_km =
     ''[HIGH RISK] - National Emergency & Infrastructure Protection\<newline>''
     @ ''        \<newline>''
     @ ''This is a catastrophic-scale impact that will devastate ''
     @ format_1f damage_radius_km
     @ '' km radius.\<newline>''
     @ (if city_affected then ''[CRITICAL]: '' @ nearest_city @ '' faces total destruction!''
         else ''Major cities within '' @ str_int (py_int damage_radius_km) @ ''km must evacuate immediately!'')
     @ ''\<newline>''
     @ ''\<newline>''
     @ ''RECOMMENDED ACTIONS:\<newline>''
     @ ''* Declare national emergency and activate all disaster protocols\<newline>''
     @ ''* Mass evacuation of population within ''
     @ format_1f (damage_radius_km * 2)
     @ '' km\<newline>''
     @ ''* Reinforce critical infrastructure outside the impact zone\<newline>''
     @ ''* Deploy military assets for rescue and recovery operations\<newline>''
     @ ''* Establish emergency government continuity plans\<newline>''
     @ ''* Stockpile food, water, and medical supplies\<newline>''
     @ ''* Prepare for long-term displacement of millions\<newline>''
     @ ''* International aid coordination with UN and neighboring countries\<newline>''
     @ ''* Consider deflection missions if detection is early enough''"

definition extreme_risk_text :: "string \<Rightarrow> string" where
  "extreme_risk_text nearest_city =
     ''[EXTREME RISK] - Global Catastrophe & Planetary Defense\<newline>''
     @ ''        \<newline>''
     @ ''This is an extinction-level impact event with global consequences.\<newline>''
     @ ''ALL major population centers including ''
     @ nearest_city
     @ '' are at risk from global effects.\<newline>''
     @ ''\<newline>''
     @ ''RECOMMENDED ACTIONS:\<newline>''
     @ ''* Activate international planetary defense protocols immediately\<newline>''
     @ ''* Consider kinetic impactor or nuclear deflection missions\<newline>''
     @ ''* Global evacuation and shelter-in-place orders\<newline>''
     @ ''* Prepare for:\<newline>''
     @ ''  - Massive earthquakes and tsunamis worldwide\<newline>''
     @ ''  - Global firestorms and atmospheric ignition\<newline>''
     @ ''  - Impact winter and crop failures\<newline>''
     @ ''  - Collapse of civilization infrastructure\<newline>''
     @ ''* Establish underground shelters and seed vaults\<newline>''
     @ ''* Preserve critical knowledge and technology\<newline>''
     @ ''* International cooperation for human species survival\<newline>''
     @ ''* Launch emergency space missions if time permits\<newline>''
     @ ''* Document and preserve cultural heritage\<newline>''
     @ ''\<newline>''
     @ ''NOTE: If impact is imminent and deflection impossible, focus on:\<newline>''
     @ ''  - Protecting genetic diversity and knowledge repositories\<newline>''
     @ ''  - Deep underground shelter construction\<newline>''
     @ ''  - Long-term survival preparation for post-impact world''"

definition get_mitigation_strategy :: "real \<Rightarrow> bool \<Rightarrow> string \<Rightarrow> real \<Rightarrow> string" where
  "get_mitigation_strategy risk_factor city_affected nearest_city damage_radius_km =
     (if risk_factor < 20 then low_risk_text nearest_city
      else if risk_factor < 50 then moderate_risk_text city_affected nearest_city damage_radius_km
      else if risk_factor < 80 then high_risk_text city_affected nearest_city damage_radius_km
      else extreme_risk_text nearest_city)"

section \<open>The impact simulator\<close>

text \<open>The dict returned by \<^verbatim>\<open>simulate_meteor_impact\<close>, one field for each key.\<close>

record impact_result =
  mass_kg :: real
  impact_energy_j :: real
  impact_energy_mt :: real
  crater_diameter_m :: real
  damage_radius_km :: real
  proximity_risk :: real
  impact_risk :: real
  combined_risk_factor :: real
  impact_classification :: string
  casualty_estimate :: string
  nearest_city :: string
  city_distance_km :: pyfloat
  city_affected :: bool

text \<open>The four classification labels; the first holds an em dash (three bytes in UTF-8).\<close>

definition class_fireball :: string where
  "class_fireball = ''Small fireball '' @ [CHR 0xE2, CHR 0x80, CHR 0x94] @ '' harmless airburst''"

definition class_tunguska :: string where
  "class_tunguska = ''Tunguska-scale regional event''"

definition class_city :: string where
  "class_city = ''City to country-scale devastation''"

definition class_global :: string where
  "class_global = ''Global catastrophic impact''"

text \<open>
  \<^verbatim>\<open>simulate_meteor_impact(diameter_m, velocity_km_s, distance_km, lat, lon, angle_deg=45,
  density_kg_m3=3000)\<close>, with the table it reads as its first argument and the two optional
  arguments written out.
\<close>

definition simulate_meteor_impact ::
  "city_table \<Rightarrow> real \<Rightarrow> real \<Rightarrow> real \<Rightarrow> real \<Rightarrow> real \<Rightarrow> real \<Rightarrow> real \<Rightarrow> py_error + impact_result" where
  "simulate_meteor_impact cities diameter_m velocity_km_s distance_km lat lon angle_deg density_kg_m3 =
     (let EARTH_DENSITY = 2700;
          TNT_EQUIVALENT_J = 4.184 * 10 ^ 15;
          MAX_DISTANCE_KM = 10 ^ 7;
          radius_m = diameter_m / 2;
          velocity_m_s = velocity_km_s * 1000;
          angle_rad = radians angle_deg;
          mass = (4 / 3) * pi * radius_m ^ 3 * density_kg_m3;
          energy_j = 0.5 * mass * velocity_m_s ^ 2 * sin angle_rad;
          energy_mt = energy_j / TNT_EQUIVALENT_J
      in case float_pow mass (1 / 3) of Inl e \<Rightarrow> Inl e | Inr mass_root \<Rightarrow>
        (case float_pow velocity_m_s 0.44 of Inl e \<Rightarrow> Inl e | Inr velocity_pow \<Rightarrow>
        (case float_pow EARTH_DENSITY 0.22 of Inl e \<Rightarrow> Inl e | Inr density_pow \<Rightarrow>
        (case float_pow (sin angle_rad) 0.33 of Inl e \<Rightarrow> Inl e | Inr angle_pow \<Rightarrow>
          (let crater = 1.161 * (mass_root * velocity_pow) / density_pow * angle_pow;
               damage_radius = (crater / 1000) * 20;
               proximity = min 100 (max 0 ((MAX_DISTANCE_KM - distance_km) / 10 ^ 5));
               impact =
                 (if energy_mt < 0.01 then 5
                  else if energy_mt < 1 then min 50 (20 + damage_radius)
                  else if energy_mt < 1000 then min 80 (50 + damage_radius * 0.5)
                  else min 100 (80 + damage_radius * 0.1));
               combined_risk = py_round (min 100 (max 0 (proximity * 0.4 + impact * 0.6))) 1;
               (impact_class, casualties) =
                 (if energy_mt < 0.01 then
                    (class_fireball, ''0-10 (minor injuries from debris)'')
                  else if energy_mt < 1 then
                    (class_tunguska, ''100s-1,000s (within 50km radius)'')
                  else if energy_mt < 1000 then
                    (class_city, ''10,000s-100,000s (regional catastrophe)'')
                  else
                    (class_global, ''Millions to billions (mass extinction event)''))
           in case find_nearest_city cities lat lon of
                Inl e \<Rightarrow> Inl e
              | Inr (nearest, city_distance) \<Rightarrow>
                  Inr \<lparr>mass_kg = mass,
                       impact_energy_j = energy_j,
                       impact_energy_mt = energy_mt,
                       crater_diameter_m = crater,
                       damage_radius_km = damage_radius,
                       proximity_risk = proximity,
                       impact_risk = impact,
                       combined_risk_factor = combined_risk,
                       impact_classification = impact_class,
                       casualty_estimate = casualties,
                       nearest_city = nearest,
                       city_distance_km = city_distance,
                       city_affected = float_le city_distance damage_radius\<rparr>)))))"

text \<open>
  The input ranges of the data model (ImpactParameters); the interactive caller checks the
  first three and the coordinates before it calls the simulator.
\<close>

definition valid_params :: "real \<Rightarrow> real \<Rightarrow> real \<Rightarrow> real \<Rightarrow> real \<Rightarrow> real \<Rightarrow> real \<Rightarrow> bool" where
  "valid_params diameter_m velocity_km_s distance_km lat lon angle_deg density_kg_m3 \<longleftrightarrow>
     0 < diameter_m \<and> 0 < velocity_km_s \<and> 0 \<le> distance_km
     \<and> - 90 \<le> lat \<and> lat \<le> 90 \<and> - 180 \<le> lon \<and> lon \<le> 180
     \<and> 0 < angle_deg \<and> angle_deg \<le> 90 \<and> 0 < density_kg_m3"

section \<open>The batch collector's risk score\<close>

definition MITIGATION_STRATEGIES :: "string list" where
  "MITIGATION_STRATEGIES =
    [''Early detection and orbit monitoring to plan deflection.'',
     ''Evacuation of high-risk areas if impact is imminent.'',
     ''International coordination for disaster management.'',
     ''Deploy kinetic impactor to change asteroid trajectory.'',
     ''Use nuclear devices only as last-resort deflection.'',
     ''Public alert system for meteor airburst warnings.'',
     ''Secure critical infrastructure in potential impact zones.'',
     ''Simulation drills for cities under high risk.'',
     ''Satellite observation to track fragmenting meteors.'',
     ''Emergency medical preparation for blast injuries.'',
     ''Fire suppression readiness in case of fireball impacts.'',
     ''Marine alerts for potential tsunami from ocean impacts.'',
     ''Reinforcement of buildings against shockwaves.'',
     ''Debris shielding for satellites in orbit.'',
     ''Rapid response teams for search & rescue.'',
     ''Meteor insurance programs for property damage.'',
     ''Temporary exclusion zones around predicted impact sites.'',
     ''Analysis of meteor composition for chemical hazards.'',
     ''Post-impact environmental monitoring plans.'',
     ''Research into long-term planetary defense strategies.'']"

definition calculate_risk_factor :: "real \<Rightarrow> real \<Rightarrow> real \<Rightarrow> real" where
  "calculate_risk_factor diameter velocity distance_km =
     (let MAX_DISTANCE_KM = 10 ^ 7;
          energy = 0.5 * (4 / 3 * pi * (diameter / 2) ^ 3 * 3000) * (velocity * 1000) ^ 2;
          energy_mt = energy / (4.184 * 10 ^ 15);
          risk = min 100 (max 0 (energy_mt * 0.5 + (MAX_DISTANCE_KM - distance_km) / 10 ^ 5))
      in py_round risk 1)"

definition choose_mitigation :: "real \<Rightarrow> py_error + string" where
  "choose_mitigation risk =
     (let index = min (int (length MITIGATION_STRATEGIES) - 1) (py_int (risk / 5))
      in py_index MITIGATION_STRATEGIES index)"

section \<open>Notions used in the statements\<close>

text \<open>
  The quantity \<open>a\<close> of the haversine formula and the great-circle distance that
  \<open>haversine_distance\<close> returns when neither \<^verbatim>\<open>math.sqrt\<close> nor \<^verbatim>\<open>math.asin\<close> raises
  (in exact arithmetic \<open>a\<close> lies in \<open>[0, 1]\<close>, lemma \<open>hav_a_range\<close> below).
\<close>

definition hav_a :: "real \<Rightarrow> real \<Rightarrow> real \<Rightarrow> real \<Rightarrow> real" where
  "hav_a lat lon city_lat city_lon =
     (sin (radians (city_lat - lat) / 2))\<^sup>2
     + cos (radians lat) * cos (radians city_lat) * (sin (radians (city_lon - lon) / 2))\<^sup>2"

definition great_circle_km :: "real \<Rightarrow> real \<Rightarrow> real \<Rightarrow> real \<Rightarrow> real" where
  "great_circle_km lat lon city_lat city_lon =
     6371 * (2 * arcsin (sqrt (hav_a lat lon city_lat city_lon)))"

text \<open>Name, latitude and longitude of a table entry, and its distance from a point.\<close>

definition entry_name :: "string \<times> (real \<times> real \<times> int) \<Rightarrow> string" where
  "entry_name c = fst c"

definition entry_lat :: "string \<times> (real \<times> real \<times> int) \<Rightarrow> real" where
  "entry_lat c = fst (snd c)"

definition entry_lon :: "string \<times> (real \<times> real \<times> int) \<Rightarrow> real" where
  "entry_lon c = fst (snd (snd c))"

definition entry_distance :: "real \<Rightarrow> real \<Rightarrow> string \<times> (real \<times> real \<times> int) \<Rightarrow> real" where
  "entry_distance lat lon c = great_circle_km lat lon (entry_lat c) (entry_lon c)"


text \<open>
  The quantities that \<open>simulate_meteor_impact\<close> computes, as functions of its arguments.
  Lemma \<open>simulate_result\<close> below shows that the fields of the result have these values.
\<close>

definition mass_of :: "real \<Rightarrow> real \<Rightarrow> real" where
  "mass_of diameter density = (4 / 3) * pi * (diameter / 2) ^ 3 * density"

definition energy_j_of :: "real \<Rightarrow> real \<Rightarrow> real \<Rightarrow> real \<Rightarrow> real" where
  "energy_j_of diameter velocity angle density =
     0.5 * mass_of diameter density * (velocity * 1000) ^ 2 * sin (radians angle)"

definition energy_mt_of :: "real \<Rightarrow> real \<Rightarrow> real \<Rightarrow> real \<Rightarrow> real" where
  "energy_mt_of diameter velocity angle density =
     energy_j_of diameter velocity angle density / (4.184 * 10 ^ 15)"

definition crater_of :: "real \<Rightarrow> real \<Rightarrow> real \<Rightarrow> real \<Rightarrow> real" where
  "crater_of diameter velocity angle density =
     1.161 * (mass_of diameter density powr (1 / 3) * (velocity * 1000) powr 0.44)
       / 2700 powr 0.22 * sin (radians angle) powr 0.33"

definition damage_radius_of :: "real \<Rightarrow> real \<Rightarrow> real \<Rightarrow> real \<Rightarrow> real" where
  "damage_radius_of diameter velocity angle density =
     (crater_of diameter velocity angle density / 1000) * 20"

definition proximity_of :: "real \<Rightarrow> real" where
  "proximity_of distance = min 100 (max 0 ((10 ^ 7 - distance) / 10 ^ 5))"

definition impact_risk_of :: "real \<Rightarrow> real \<Rightarrow> real" where
  "impact_risk_of energy radius =
     (if energy < 0.01 then 5
      else if energy < 1 then min 50 (20 + radius)
      else if energy < 1000 then min 80 (50 + radius * 0.5)
      else min 100 (80 + radius * 0.1))"

definition labels_of :: "real \<Rightarrow> string \<times> string" where
  "labels_of energy =
     (if energy < 0.01 then (class_fireball, ''0-10 (minor injuries from debris)'')
      else if energy < 1 then (class_tunguska, ''100s-1,000s (within 50km radius)'')
      else if energy < 1000 then (class_city, ''10,000s-100,000s (regional catastrophe)'')
      else (class_global, ''Millions to billions (mass extinction event)''))"

section \<open>The haversine distance in exact arithmetic\<close>

lemma radians_diff: "radians (x - y) = radians x - radians y"
  by (simp add: radians_def left_diff_distrib)

lemma radians_mono: "x \<le> y \<Longrightarrow> radians x \<le> radians y"
  unfolding radians_def by (rule mult_right_mono) simp_all

lemma radians_strict_mono: "x < y \<Longrightarrow> radians x < radians y"
  unfolding radians_def by (rule mult_strict_right_mono) simp_all

lemma radians_90: "radians 90 = pi / 2" "radians (- 90) = - (pi / 2)" "radians 0 = 0"
  by (simp_all add: radians_def)

lemma cos_diff_times_cos_add:
  fixes u v :: real
  shows "cos (u - v) * cos (u + v) = (cos u)\<^sup>2 - (sin v)\<^sup>2"
proof -
  have "cos (u - v) * cos (u + v) = (cos u * cos v + sin u * sin v) * (cos u * cos v - sin u * sin v)"
    by (simp only: cos_add cos_diff)
  also have "\<dots> = (cos u)\<^sup>2 * (cos v)\<^sup>2 - (sin u)\<^sup>2 * (sin v)\<^sup>2"
    by (simp add: power2_eq_square algebra_simps)
  also have "\<dots> = (cos u)\<^sup>2 * (1 - (sin v)\<^sup>2) - (1 - (cos u)\<^sup>2) * (sin v)\<^sup>2"
    by (simp only: cos_squared_eq[of v] sin_squared_eq[of u])
  also have "\<dots> = (cos u)\<^sup>2 - (sin v)\<^sup>2"
    by (simp add: algebra_simps)
  finally show ?thesis .
qed

lemma cos_prod_half:
  fixes p q :: real
  shows "cos p * cos q = (cos ((p + q) / 2))\<^sup>2 - (sin ((q - p) / 2))\<^sup>2"
proof -
  have "(p + q) / 2 - (q - p) / 2 = p" "(p + q) / 2 + (q - p) / 2 = q"
    by (simp_all add: field_simps)
  then show ?thesis
    using cos_diff_times_cos_add[of "(p + q) / 2" "(q - p) / 2"] by simp
qed

lemma haversine_term:
  fixes p q s :: real
  shows "(sin ((q - p) / 2))\<^sup>2 + cos p * cos q * s
       = (1 - s) * (sin ((q - p) / 2))\<^sup>2 + s * (cos ((p + q) / 2))\<^sup>2"
  by (simp add: cos_prod_half algebra_simps)

lemma sin_sq_range: "0 \<le> (sin (x::real))\<^sup>2 \<and> (sin x)\<^sup>2 \<le> 1"
  by (simp add: abs_square_le_1)

lemma cos_sq_range: "0 \<le> (cos (x::real))\<^sup>2 \<and> (cos x)\<^sup>2 \<le> 1"
  by (simp add: abs_square_le_1)

lemma convex_unit:
  fixes s A B :: real
  assumes "0 \<le> s" "s \<le> 1" "0 \<le> A" "A \<le> 1" "0 \<le> B" "B \<le> 1"
  shows "0 \<le> (1 - s) * A + s * B" "(1 - s) * A + s * B \<le> 1"
proof -
  show "0 \<le> (1 - s) * A + s * B" using assms by simp
  have "(1 - s) * A \<le> (1 - s) * 1" using assms by (intro mult_left_mono) auto
  moreover have "s * B \<le> s * 1" using assms by (intro mult_left_mono) auto
  ultimately show "(1 - s) * A + s * B \<le> 1" by simp
qed

lemma hav_a_convex:
  "hav_a lat lon clat clon =
     (1 - (sin (radians (clon - lon) / 2))\<^sup>2) * (sin ((radians clat - radians lat) / 2))\<^sup>2
     + (sin (radians (clon - lon) / 2))\<^sup>2 * (cos ((radians lat + radians clat) / 2))\<^sup>2"
  unfolding hav_a_def radians_diff[of clat lat] by (rule haversine_term)

lemma hav_a_range: "0 \<le> hav_a lat lon clat clon" "hav_a lat lon clat clon \<le> 1"
  unfolding hav_a_convex
  using sin_sq_range[of "radians (clon - lon) / 2"]
    sin_sq_range[of "(radians clat - radians lat) / 2"]
    cos_sq_range[of "(radians lat + radians clat) / 2"]
  by (simp_all add: convex_unit)

lemma haversine_distance_eq:
  "haversine_distance lat lon clat clon = Inr (great_circle_km lat lon clat clon)"
proof -
  have 1: "\<not> hav_a lat lon clat clon < 0" using hav_a_range(1)[of lat lon clat clon] by simp
  have "sqrt (hav_a lat lon clat clon) \<le> 1" using hav_a_range(2)[of lat lon clat clon] by simp
  moreover have "0 \<le> sqrt (hav_a lat lon clat clon)" using hav_a_range(1)[of lat lon clat clon] by simp
  ultimately have 2: "\<not> (sqrt (hav_a lat lon clat clon) < - 1 \<or> 1 < sqrt (hav_a lat lon clat clon))" by linarith
  show ?thesis
    using 1 2 unfolding haversine_distance_def great_circle_km_def Let_def math_sqrt_def math_asin_def hav_a_def
    by simp
qed

lemma great_circle_nonneg: "0 \<le> great_circle_km lat lon clat clon"
proof -
  have "sqrt (hav_a lat lon clat clon) \<in> {0..1}"
    using hav_a_range[of lat lon clat clon] by simp
  then have "0 \<le> arcsin (sqrt (hav_a lat lon clat clon))" by (rule arcsin_nonneg)
  then show ?thesis by (simp add: great_circle_km_def)
qed

lemma great_circle_self: "great_circle_km lat lon lat lon = 0"
  by (simp add: great_circle_km_def hav_a_def radians_def)

lemma great_circle_pos:
  assumes ne: "lat \<noteq> clat"
    and r1: "- 90 \<le> lat" "lat \<le> 90" and r2: "- 90 \<le> clat" "clat \<le> 90"
  shows "0 < great_circle_km lat lon clat clon"
proof -
  define p where "p = radians lat"
  define q where "q = radians clat"
  define s where "s = (sin (radians (clon - lon) / 2))\<^sup>2"
  define A where "A = (sin ((q - p) / 2))\<^sup>2"
  define B where "B = (cos ((p + q) / 2))\<^sup>2"
  have pr: "- (pi / 2) \<le> p" "p \<le> pi / 2" "- (pi / 2) \<le> q" "q \<le> pi / 2"
    using radians_mono[OF r1(1)] radians_mono[OF r1(2)] radians_mono[OF r2(1)] radians_mono[OF r2(2)]
    by (simp_all add: p_def q_def radians_90)
  have pq: "p \<noteq> q" using ne by (simp add: p_def q_def radians_def)
  have s: "0 \<le> s" "s \<le> 1" using sin_sq_range[of "radians (clon - lon) / 2"] by (simp_all add: s_def)
  have "sin ((q - p) / 2) \<noteq> 0"
  proof (cases "p < q")
    case True
    then have "0 < (q - p) / 2" "(q - p) / 2 < pi" using pr by simp_all
    then show ?thesis using sin_gt_zero by fastforce
  next
    case False
    then have "0 < (p - q) / 2" "(p - q) / 2 < pi" using pr pq by simp_all
    then have "0 < sin ((p - q) / 2)" by (rule sin_gt_zero)
    moreover have "sin ((q - p) / 2) = - sin ((p - q) / 2)"
      by (metis minus_diff_eq minus_divide_left sin_minus)
    ultimately show ?thesis by simp
  qed
  then have A: "0 < A" by (simp add: A_def)
  have "- (pi / 2) < (p + q) / 2" "(p + q) / 2 < pi / 2" using pr pq by simp_all
  then have "0 < cos ((p + q) / 2)" by (rule cos_gt_zero_pi)
  then have B: "0 < B" by (simp add: B_def)
  have a: "hav_a lat lon clat clon = (1 - s) * A + s * B"
    unfolding hav_a_convex by (simp add: s_def A_def B_def p_def q_def)
  have "0 < (1 - s) * A + s * B"
  proof (cases "s = 0")
    case True then show ?thesis using A by simp
  next
    case False
    then have "0 < s * B" using s B by simp
    moreover have "0 \<le> (1 - s) * A" using s A by simp
    ultimately show ?thesis by linarith
  qed
  then have pos: "0 < sqrt (hav_a lat lon clat clon)" by (simp add: a)
  have le: "sqrt (hav_a lat lon clat clon) \<le> 1" using hav_a_range(2)[of lat lon clat clon] by simp
  have "arcsin 0 < arcsin (sqrt (hav_a lat lon clat clon))"
    using pos le by (intro arcsin_less_arcsin) simp_all
  then show ?thesis by (simp add: great_circle_km_def)
qed


section \<open>The nearest-city loop\<close>

lemma nearest_loop_Cons:
  "nearest_loop (c # rest) lat lon (m, n) =
     nearest_loop rest lat lon
       (if float_lt (entry_distance lat lon c) m then (Finite (entry_distance lat lon c), entry_name c)
        else (m, n))"
  by (cases c) (simp add: haversine_distance_eq entry_distance_def entry_name_def entry_lat_def entry_lon_def)

lemma float_lt_trans: "x < y \<Longrightarrow> float_lt y m \<Longrightarrow> float_lt x m"
  by (cases m) simp_all

lemma float_lt_not: "float_lt x m \<Longrightarrow> \<not> float_lt y m \<Longrightarrow> x < y"
  by (cases m) simp_all

lemma nearest_loop_cases:
  "(nearest_loop cs lat lon (m0, n0) = Inr (m0, n0)
      \<and> (\<forall>c\<in>set cs. \<not> float_lt (entry_distance lat lon c) m0))
   \<or> (\<exists>pre c post. cs = pre @ c # post
        \<and> nearest_loop cs lat lon (m0, n0) = Inr (Finite (entry_distance lat lon c), entry_name c)
        \<and> float_lt (entry_distance lat lon c) m0
        \<and> (\<forall>x\<in>set pre. entry_distance lat lon c < entry_distance lat lon x)
        \<and> (\<forall>x\<in>set post. entry_distance lat lon c \<le> entry_distance lat lon x))"
proof (induction cs arbitrary: m0 n0)
  case Nil
  show ?case by (rule disjI1) simp
next
  case (Cons x xs)
  let ?d = "entry_distance lat lon"
  show ?case
  proof (cases "float_lt (?d x) m0")
    case True
    then have step: "nearest_loop (x # xs) lat lon (m0, n0) = nearest_loop xs lat lon (Finite (?d x), entry_name x)"
      by (simp only: nearest_loop_Cons if_True)
    from Cons.IH[of "Finite (?d x)" "entry_name x"] show ?thesis
    proof (elim disjE conjE exE)
      assume r: "nearest_loop xs lat lon (Finite (?d x), entry_name x) = Inr (Finite (?d x), entry_name x)"
        and a: "\<forall>c\<in>set xs. \<not> float_lt (?d c) (Finite (?d x))"
      show ?thesis
      proof (rule disjI2, intro exI conjI)
        show "x # xs = [] @ x # xs" by simp
        show "nearest_loop (x # xs) lat lon (m0, n0) = Inr (Finite (?d x), entry_name x)"
          by (simp only: step r)
        show "float_lt (?d x) m0" by (rule True)
        show "\<forall>y\<in>set []. ?d x < ?d y" by simp
        show "\<forall>y\<in>set xs. ?d x \<le> ?d y" using a by (simp add: not_less)
      qed
    next
      fix pre c post
      assume d: "xs = pre @ c # post"
        and r: "nearest_loop xs lat lon (Finite (?d x), entry_name x) = Inr (Finite (?d c), entry_name c)"
        and lt: "float_lt (?d c) (Finite (?d x))"
        and p: "\<forall>y\<in>set pre. ?d c < ?d y" and q: "\<forall>y\<in>set post. ?d c \<le> ?d y"
      have lt': "?d c < ?d x" using lt by simp
      show ?thesis
      proof (rule disjI2, intro exI conjI)
        show "x # xs = (x # pre) @ c # post" by (simp only: d append_Cons)
        show "nearest_loop (x # xs) lat lon (m0, n0) = Inr (Finite (?d c), entry_name c)"
          by (simp only: step r)
        show "float_lt (?d c) m0" using lt' True by (rule float_lt_trans)
        show "\<forall>y\<in>set (x # pre). ?d c < ?d y" using p lt' by simp
        show "\<forall>y\<in>set post. ?d c \<le> ?d y" by (rule q)
      qed
    qed
  next
    case False
    then have step: "nearest_loop (x # xs) lat lon (m0, n0) = nearest_loop xs lat lon (m0, n0)"
      by (simp only: nearest_loop_Cons if_False)
    from Cons.IH[of m0 n0] show ?thesis
    proof (elim disjE conjE exE)
      assume r: "nearest_loop xs lat lon (m0, n0) = Inr (m0, n0)"
        and a: "\<forall>c\<in>set xs. \<not> float_lt (?d c) m0"
      show ?thesis
      proof (rule disjI1, intro conjI)
        show "nearest_loop (x # xs) lat lon (m0, n0) = Inr (m0, n0)" by (simp only: step r)
        show "\<forall>c\<in>set (x # xs). \<not> float_lt (?d c) m0" using a False by simp
      qed
    next
      fix pre c post
      assume d: "xs = pre @ c # post"
        and r: "nearest_loop xs lat lon (m0, n0) = Inr (Finite (?d c), entry_name c)"
        and lt: "float_lt (?d c) m0"
        and p: "\<forall>y\<in>set pre. ?d c < ?d y" and q: "\<forall>y\<in>set post. ?d c \<le> ?d y"
      have lt': "?d c < ?d x" using lt False by (rule float_lt_not)
      show ?thesis
      proof (rule disjI2, intro exI conjI)
        show "x # xs = (x # pre) @ c # post" by (simp only: d append_Cons)
        show "nearest_loop (x # xs) lat lon (m0, n0) = Inr (Finite (?d c), entry_name c)"
          by (simp only: step r)
        show "float_lt (?d c) m0" by (rule lt)
        show "\<forall>y\<in>set (x # pre). ?d c < ?d y" using p lt' by simp
        show "\<forall>y\<in>set post. ?d c \<le> ?d y" by (rule q)
      qed
    qed
  qed
qed

lemma find_nearest_city_empty:
  "find_nearest_city [] lat lon = Inr (''Unknown location'', Infinity)"
  by (simp add: find_nearest_city_def)

lemma find_nearest_city_nonempty:
  assumes "cities \<noteq> []"
  shows "\<exists>pre c post. cities = pre @ c # post
        \<and> find_nearest_city cities lat lon
            = Inr (entry_name c, Finite (py_round (entry_distance lat lon c) 2))
        \<and> (\<forall>x\<in>set pre. entry_distance lat lon c < entry_distance lat lon x)
        \<and> (\<forall>x\<in>set post. entry_distance lat lon c \<le> entry_distance lat lon x)"
proof -
  obtain x where "x \<in> set cities" using assms by (cases cities) auto
  moreover have "float_lt (entry_distance lat lon x) Infinity" by simp
  ultimately have "\<not> (\<forall>c\<in>set cities. \<not> float_lt (entry_distance lat lon c) Infinity)" by blast
  with nearest_loop_cases[of cities lat lon Infinity "''Unknown location''"]
  obtain pre c post where d: "cities = pre @ c # post"
    and r: "nearest_loop cities lat lon (Infinity, ''Unknown location'') = Inr (Finite (entry_distance lat lon c), entry_name c)"
    and p: "\<forall>x\<in>set pre. entry_distance lat lon c < entry_distance lat lon x"
    and q: "\<forall>x\<in>set post. entry_distance lat lon c \<le> entry_distance lat lon x"
    by blast
  have "find_nearest_city cities lat lon = Inr (entry_name c, Finite (py_round (entry_distance lat lon c) 2))"
    by (simp add: find_nearest_city_def r)
  with d p q show ?thesis by blast
qed

lemma find_nearest_city_total: "\<exists>r. find_nearest_city cities lat lon = Inr r"
  using find_nearest_city_empty[of lat lon] find_nearest_city_nonempty[of cities lat lon]
  by (cases "cities = []") auto


lemma round_half_even_of_int: "round_half_even (of_int k) = k"
  by (simp add: round_half_even_def)

lemma py_round_0: "py_round 0 n = 0"
  using round_half_even_of_int[of 0] by (simp add: py_round_def)

lemma MAJOR_CITIES_lat_range:
  "\<forall>c\<in>set MAJOR_CITIES. - 90 \<le> entry_lat c \<and> entry_lat c \<le> 90"
  by (simp add: MAJOR_CITIES_def entry_lat_def)

lemma MAJOR_CITIES_lat_distinct: "distinct (map entry_lat MAJOR_CITIES)"
  by (simp add: MAJOR_CITIES_def entry_lat_def)

lemma MAJOR_CITIES_nonempty: "MAJOR_CITIES \<noteq> []"
  by (simp add: MAJOR_CITIES_def)

lemma find_nearest_city_at_listed:
  assumes c: "c \<in> set cities"
    and range: "\<forall>x\<in>set cities. - 90 \<le> entry_lat x \<and> entry_lat x \<le> 90"
    and dist: "distinct (map entry_lat cities)"
  shows "find_nearest_city cities (entry_lat c) (entry_lon c) = Inr (entry_name c, Finite 0)"
proof -
  let ?d = "entry_distance (entry_lat c) (entry_lon c)"
  have ne: "cities \<noteq> []" using c by auto
  obtain pre c' post where d: "cities = pre @ c' # post"
    and r: "find_nearest_city cities (entry_lat c) (entry_lon c)
            = Inr (entry_name c', Finite (py_round (?d c') 2))"
    and p: "\<forall>x\<in>set pre. ?d c' < ?d x"
    and q: "\<forall>x\<in>set post. ?d c' \<le> ?d x"
    using find_nearest_city_nonempty[OF ne, of "entry_lat c" "entry_lon c"] by blast
  have zero: "?d c = 0" by (simp add: entry_distance_def great_circle_self)
  have nonneg: "0 \<le> ?d c'" by (simp add: entry_distance_def great_circle_nonneg)
  have c': "c' \<in> set cities" using d by simp
  have "c \<in> set pre \<or> c = c' \<or> c \<in> set post" using c d by auto
  then have le: "?d c' \<le> 0"
  proof (elim disjE)
    assume "c \<in> set pre"
    then have "?d c' < ?d c" using p by blast
    then show ?thesis using zero by simp
  next
    assume "c = c'"
    then show ?thesis using zero by simp
  next
    assume "c \<in> set post"
    then have "?d c' \<le> ?d c" using q by blast
    then show ?thesis using zero by simp
  qed
  have lat: "entry_lat c' = entry_lat c"
  proof (rule ccontr)
    assume "entry_lat c' \<noteq> entry_lat c"
    then have "entry_lat c \<noteq> entry_lat c'" by simp
    then have "0 < great_circle_km (entry_lat c) (entry_lon c) (entry_lat c') (entry_lon c')"
      using range c c' by (intro great_circle_pos) auto
    then show False using le by (simp add: entry_distance_def)
  qed
  have "inj_on entry_lat (set cities)" using dist by (simp add: distinct_map)
  then have same: "c' = c" using lat c' c by (rule inj_onD)
  show ?thesis using r zero by (simp add: same py_round_0)
qed

text \<open>
  \<^bold>\<open>C5.\<close> Queried with the coordinates of any entry of \<open>MAJOR_CITIES\<close>, the lookup returns
  that entry's name and the distance 0.00. (The latitudes of the table are pairwise
  distinct, so no entry shares its coordinates with an earlier one.)
\<close>

theorem find_nearest_city_at_center:
  "\<forall>c\<in>set MAJOR_CITIES.
     find_nearest_city MAJOR_CITIES (entry_lat c) (entry_lon c) = Inr (entry_name c, Finite 0)"
  using find_nearest_city_at_listed[OF _ MAJOR_CITIES_lat_range MAJOR_CITIES_lat_distinct]
  by blast

theorem find_nearest_city_at_center_witness:
  "(''Tokyo, Japan'', (35.6762, 139.6503, 13960000)) \<in> set MAJOR_CITIES
   \<and> find_nearest_city MAJOR_CITIES 35.6762 139.6503 = Inr (''Tokyo, Japan'', Finite 0)"
proof -
  have m: "(''Tokyo, Japan'', (35.6762, 139.6503, 13960000)) \<in> set MAJOR_CITIES"
    by (simp add: MAJOR_CITIES_def)
  from find_nearest_city_at_center m
  have "find_nearest_city MAJOR_CITIES (entry_lat (''Tokyo, Japan'', (35.6762, 139.6503, 13960000)))
          (entry_lon (''Tokyo, Japan'', (35.6762, 139.6503, 13960000)))
        = Inr (entry_name (''Tokyo, Japan'', (35.6762, 139.6503, 13960000)), Finite 0)"
    by (rule bspec)
  then show ?thesis using m by (simp add: entry_lat_def entry_lon_def entry_name_def)
qed



section \<open>The result of the simulator\<close>

lemma simulate_result:
  assumes m: "0 \<le> mass_of d rho" and v: "0 \<le> v" and s: "0 \<le> sin (radians ang)"
  shows "\<exists>nearest cd. find_nearest_city cities lat lon = Inr (nearest, cd) \<and>
     simulate_meteor_impact cities d v dst lat lon ang rho =
       Inr \<lparr>mass_kg = mass_of d rho,
            impact_energy_j = energy_j_of d v ang rho,
            impact_energy_mt = energy_mt_of d v ang rho,
            crater_diameter_m = crater_of d v ang rho,
            damage_radius_km = damage_radius_of d v ang rho,
            proximity_risk = proximity_of dst,
            impact_risk = impact_risk_of (energy_mt_of d v ang rho) (damage_radius_of d v ang rho),
            combined_risk_factor =
              py_round (min 100 (max 0 (proximity_of dst * 0.4
                + impact_risk_of (energy_mt_of d v ang rho) (damage_radius_of d v ang rho) * 0.6))) 1,
            impact_classification = fst (labels_of (energy_mt_of d v ang rho)),
            casualty_estimate = snd (labels_of (energy_mt_of d v ang rho)),
            nearest_city = nearest,
            city_distance_km = cd,
            city_affected = float_le cd (damage_radius_of d v ang rho)\<rparr>"
proof -
  obtain nearest cd where f: "find_nearest_city cities lat lon = Inr (nearest, cd)"
    using find_nearest_city_total[of cities lat lon] by (metis surj_pair)
  have m': "\<not> (4 / 3) * pi * (d / 2) ^ 3 * rho < 0" using m by (simp add: mass_of_def)
  have v': "\<not> v * 1000 < 0" using v by simp
  have s': "\<not> sin (radians ang) < 0" using s by simp
  have "simulate_meteor_impact cities d v dst lat lon ang rho =
       Inr \<lparr>mass_kg = mass_of d rho,
            impact_energy_j = energy_j_of d v ang rho,
            impact_energy_mt = energy_mt_of d v ang rho,
            crater_diameter_m = crater_of d v ang rho,
            damage_radius_km = damage_radius_of d v ang rho,
            proximity_risk = proximity_of dst,
            impact_risk = impact_risk_of (energy_mt_of d v ang rho) (damage_radius_of d v ang rho),
            combined_risk_factor =
              py_round (min 100 (max 0 (proximity_of dst * 0.4
                + impact_risk_of (energy_mt_of d v ang rho) (damage_radius_of d v ang rho) * 0.6))) 1,
            impact_classification = fst (labels_of (energy_mt_of d v ang rho)),
            casualty_estimate = snd (labels_of (energy_mt_of d v ang rho)),
            nearest_city = nearest,
            city_distance_km = cd,
            city_affected = float_le cd (damage_radius_of d v ang rho)\<rparr>"
    unfolding simulate_meteor_impact_def Let_def float_pow_def f
      mass_of_def energy_j_of_def energy_mt_of_def crater_of_def damage_radius_of_def
      proximity_of_def impact_risk_of_def labels_of_def
    using m' v' s' by (simp add: case_prod_beta)
  with f show ?thesis by blast
qed


section \<open>Ranges of the computed quantities\<close>

lemma sin_radians_pos:
  assumes "0 < ang" "ang \<le> 90"
  shows "0 < sin (radians ang)"
proof -
  have "radians 0 < radians ang" using assms(1) by (rule radians_strict_mono)
  then have 1: "0 < radians ang" by (simp add: radians_90)
  have "radians ang \<le> radians 90" using assms(2) by (rule radians_mono)
  then have "radians ang \<le> pi / 2" by (simp add: radians_90)
  moreover have "pi / 2 < pi" by simp
  ultimately have 2: "radians ang < pi" by linarith
  show ?thesis using 1 2 by (rule sin_gt_zero)
qed

lemma mass_of_pos:
  assumes "0 < d" "0 < rho"
  shows "0 < mass_of d rho"
  using assms by (simp add: mass_of_def)

lemma valid_params_guards:
  assumes "valid_params d v dst lat lon ang rho"
  shows "0 < mass_of d rho" "0 < v" "0 < sin (radians ang)"
  using assms by (simp_all add: valid_params_def mass_of_pos sin_radians_pos)

lemma crater_of_nonneg: "0 \<le> crater_of d v ang rho"
  by (simp add: crater_of_def)

lemma damage_radius_of_nonneg: "0 \<le> damage_radius_of d v ang rho"
  using crater_of_nonneg[of d v ang rho] by (simp add: damage_radius_of_def)

lemma proximity_of_range: "0 \<le> proximity_of dst" "proximity_of dst \<le> 100"
  by (simp_all add: proximity_of_def)

lemma impact_risk_of_range:
  assumes "0 \<le> radius"
  shows "5 \<le> impact_risk_of e radius" "impact_risk_of e radius \<le> 100"
  using assms by (auto simp add: impact_risk_of_def min_def)

lemma round_half_even_cases: "round_half_even y = \<lfloor>y\<rfloor> \<or> round_half_even y = \<lfloor>y\<rfloor> + 1"
  by (simp add: round_half_even_def Let_def)

lemma round_half_even_ge:
  assumes "of_int k \<le> y"
  shows "k \<le> round_half_even y"
proof -
  have "k \<le> \<lfloor>y\<rfloor>" using assms by (simp add: le_floor_iff)
  then show ?thesis using round_half_even_cases[of y] by linarith
qed

lemma round_half_even_le:
  assumes "y \<le> of_int k"
  shows "round_half_even y \<le> k"
proof (cases "y = of_int k")
  case True
  then show ?thesis by (simp add: round_half_even_of_int)
next
  case False
  then have "y < of_int k" using assms by simp
  then have "\<lfloor>y\<rfloor> < k" by (simp add: floor_less_iff)
  then show ?thesis using round_half_even_cases[of y] by linarith
qed

lemma py_round_1_ge:
  assumes "of_int k / 10 \<le> x"
  shows "of_int k / 10 \<le> py_round x 1"
proof -
  have "of_int k \<le> x * 10" using assms by (simp add: field_simps)
  then have "k \<le> round_half_even (x * 10)" by (rule round_half_even_ge)
  then have "(of_int k :: real) \<le> of_int (round_half_even (x * 10))" by simp
  then show ?thesis by (simp add: py_round_def divide_right_mono)
qed

lemma py_round_1_le:
  assumes "x \<le> of_int k / 10"
  shows "py_round x 1 \<le> of_int k / 10"
proof -
  have "x * 10 \<le> of_int k" using assms by (simp add: field_simps)
  then have "round_half_even (x * 10) \<le> k" by (rule round_half_even_le)
  then have "(of_int (round_half_even (x * 10)) :: real) \<le> of_int k" by simp
  then show ?thesis by (simp add: py_round_def divide_right_mono)
qed

lemma py_round_1_range:
  assumes "0 \<le> x" "x \<le> 100"
  shows "0 \<le> py_round x 1" "py_round x 1 \<le> 100"
  using py_round_1_ge[of 0 x] py_round_1_le[of x 1000] assms by simp_all

lemma py_round_1_ge_3:
  assumes "3 \<le> x"
  shows "3 \<le> py_round x 1"
  using py_round_1_ge[of 30 x] assms by simp

lemma py_round_1_tenths: "\<exists>k::int. py_round x 1 = of_int k / 10"
  by (simp add: py_round_def)


section \<open>Tier boundaries\<close>

lemma simulate_Inr_guards:
  assumes "simulate_meteor_impact cities d v dst lat lon ang rho = Inr r"
  shows "0 \<le> mass_of d rho" "0 \<le> v" "0 \<le> sin (radians ang)"
proof -
  show "0 \<le> mass_of d rho"
  proof (rule ccontr)
    assume "\<not> 0 \<le> mass_of d rho"
    then have "(4 / 3) * pi * (d / 2) ^ 3 * rho < 0" by (simp add: mass_of_def)
    then have "simulate_meteor_impact cities d v dst lat lon ang rho = Inl TypeError"
      unfolding simulate_meteor_impact_def Let_def float_pow_def by simp
    with assms show False by simp
  qed
  show "0 \<le> v"
  proof (rule ccontr)
    assume "\<not> 0 \<le> v"
    then have "v * 1000 < 0" by simp
    then have "simulate_meteor_impact cities d v dst lat lon ang rho = Inl TypeError"
      unfolding simulate_meteor_impact_def Let_def float_pow_def by simp
    with assms show False by simp
  qed
  show "0 \<le> sin (radians ang)"
  proof (rule ccontr)
    assume "\<not> 0 \<le> sin (radians ang)"
    then have "sin (radians ang) < 0" by simp
    then have "simulate_meteor_impact cities d v dst lat lon ang rho = Inl TypeError"
      unfolding simulate_meteor_impact_def Let_def float_pow_def by simp
    with assms show False by simp
  qed
qed

lemma simulate_Inr_fields:
  assumes "simulate_meteor_impact cities d v dst lat lon ang rho = Inr r"
  shows "impact_risk r = impact_risk_of (impact_energy_mt r) (damage_radius_km r)"
    and "impact_classification r = fst (labels_of (impact_energy_mt r))"
    and "casualty_estimate r = snd (labels_of (impact_energy_mt r))"
  using simulate_result[OF simulate_Inr_guards[OF assms], of cities lat lon dst] assms
  by auto


text \<open>
  \<^bold>\<open>C4.\<close> When the energy is exactly 0.01, 1 or 1000 megatons, the impact risk and the
  classification and casualty labels are those of the tier that starts at that value.
\<close>

theorem simulate_tier_boundaries:
  assumes "simulate_meteor_impact cities d v dst lat lon ang rho = Inr r"
  shows "(impact_energy_mt r = 0.01 \<longrightarrow>
            impact_risk r = min 50 (20 + damage_radius_km r)
            \<and> impact_classification r = class_tunguska
            \<and> casualty_estimate r = ''100s-1,000s (within 50km radius)'')
       \<and> (impact_energy_mt r = 1 \<longrightarrow>
            impact_risk r = min 80 (50 + 0.5 * damage_radius_km r)
            \<and> impact_classification r = class_city
            \<and> casualty_estimate r = ''10,000s-100,000s (regional catastrophe)'')
       \<and> (impact_energy_mt r = 1000 \<longrightarrow>
            impact_risk r = min 100 (80 + 0.1 * damage_radius_km r)
            \<and> impact_classification r = class_global
            \<and> casualty_estimate r = ''Millions to billions (mass extinction event)'')"
  using simulate_Inr_fields[OF assms]
  by (simp add: impact_risk_of_def labels_of_def)

lemma energy_mt_of_boundary:
  "energy_mt_of 2 1 90 (e * 6276000000 / pi) = e"
  by (simp add: energy_mt_of_def energy_j_of_def mass_of_def radians_def)

lemma simulate_boundary_input:
  assumes "0 \<le> e"
  shows "\<exists>r. simulate_meteor_impact [] 2 1 0 0 0 90 (e * 6276000000 / pi) = Inr r
           \<and> impact_energy_mt r = e"
proof -
  have "0 \<le> mass_of 2 (e * 6276000000 / pi)" using assms by (simp add: mass_of_def)
  moreover have "0 \<le> sin (radians 90)" by (simp add: radians_def)
  ultimately show ?thesis
    using simulate_result[of 2 "e * 6276000000 / pi" 1 90 "[]" 0 0 0]
    by (auto simp add: energy_mt_of_boundary)
qed

theorem simulate_tier_boundaries_witness:
  "(\<exists>r. simulate_meteor_impact [] 2 1 0 0 0 90 (62760000 / pi) = Inr r
       \<and> impact_energy_mt r = 0.01
       \<and> impact_risk r = min 50 (20 + damage_radius_km r)
       \<and> impact_classification r = class_tunguska)
   \<and> (\<exists>r. simulate_meteor_impact [] 2 1 0 0 0 90 (6276000000 / pi) = Inr r
       \<and> impact_energy_mt r = 1
       \<and> impact_risk r = min 80 (50 + 0.5 * damage_radius_km r)
       \<and> impact_classification r = class_city)
   \<and> (\<exists>r. simulate_meteor_impact [] 2 1 0 0 0 90 (6276000000000 / pi) = Inr r
       \<and> impact_energy_mt r = 1000
       \<and> impact_risk r = min 100 (80 + 0.1 * damage_radius_km r)
       \<and> impact_classification r = class_global)"
proof (intro conjI)
  obtain r where r: "simulate_meteor_impact [] 2 1 0 0 0 90 (0.01 * 6276000000 / pi) = Inr r"
    and e: "impact_energy_mt r = 0.01"
    using simulate_boundary_input[of "0.01"] by auto
  from simulate_tier_boundaries[OF r] e r
  show "\<exists>r. simulate_meteor_impact [] 2 1 0 0 0 90 (62760000 / pi) = Inr r
       \<and> impact_energy_mt r = 0.01
       \<and> impact_risk r = min 50 (20 + damage_radius_km r)
       \<and> impact_classification r = class_tunguska"
    by auto
next
  obtain r where r: "simulate_meteor_impact [] 2 1 0 0 0 90 (1 * 6276000000 / pi) = Inr r"
    and e: "impact_energy_mt r = 1"
    using simulate_boundary_input[of 1] by auto
  from simulate_tier_boundaries[OF r] e r
  show "\<exists>r. simulate_meteor_impact [] 2 1 0 0 0 90 (6276000000 / pi) = Inr r
       \<and> impact_energy_mt r = 1
       \<and> impact_risk r = min 80 (50 + 0.5 * damage_radius_km r)
       \<and> impact_classification r = class_city"
    by auto
next
  obtain r where r: "simulate_meteor_impact [] 2 1 0 0 0 90 (1000 * 6276000000 / pi) = Inr r"
    and e: "impact_energy_mt r = 1000"
    using simulate_boundary_input[of 1000] by auto
  from simulate_tier_boundaries[OF r] e r
  show "\<exists>r. simulate_meteor_impact [] 2 1 0 0 0 90 (6276000000000 / pi) = Inr r
       \<and> impact_energy_mt r = 1000
       \<and> impact_risk r = min 100 (80 + 0.1 * damage_radius_km r)
       \<and> impact_classification r = class_global"
    by auto
qed


section \<open>Mitigation tiers\<close>

lemma low_risk_header: "prefix ''[LOW RISK]'' (low_risk_text c)"
  unfolding low_risk_text_def by (rule prefix_prefix) simp

lemma moderate_risk_header: "prefix ''[MODERATE RISK]'' (moderate_risk_text a c dr)"
  unfolding moderate_risk_text_def by (rule prefix_prefix) simp

lemma high_risk_header: "prefix ''[HIGH RISK]'' (high_risk_text a c dr)"
  unfolding high_risk_text_def by (rule prefix_prefix) simp

lemma extreme_risk_header: "prefix ''[EXTREME RISK]'' (extreme_risk_text c)"
  unfolding extreme_risk_text_def by (rule prefix_prefix) simp

text \<open>
  \<^bold>\<open>C6.\<close> The plan is chosen by the thresholds 20, 50 and 80, each threshold belonging to
  the tier above it: below 20 the LOW plan, from 20 to below 50 the MODERATE plan, from 50
  to below 80 the HIGH plan, from 80 on the EXTREME plan. Each plan starts with the header
  of its tier.
\<close>

theorem get_mitigation_strategy_tiers:
  "(rf < 20 \<longrightarrow>
      get_mitigation_strategy rf a c dr = low_risk_text c
      \<and> prefix ''[LOW RISK]'' (get_mitigation_strategy rf a c dr))
   \<and> (20 \<le> rf \<and> rf < 50 \<longrightarrow>
      get_mitigation_strategy rf a c dr = moderate_risk_text a c dr
      \<and> prefix ''[MODERATE RISK]'' (get_mitigation_strategy rf a c dr))
   \<and> (50 \<le> rf \<and> rf < 80 \<longrightarrow>
      get_mitigation_strategy rf a c dr = high_risk_text a c dr
      \<and> prefix ''[HIGH RISK]'' (get_mitigation_strategy rf a c dr))
   \<and> (80 \<le> rf \<longrightarrow>
      get_mitigation_strategy rf a c dr = extreme_risk_text c
      \<and> prefix ''[EXTREME RISK]'' (get_mitigation_strategy rf a c dr))"
  by (simp add: get_mitigation_strategy_def low_risk_header moderate_risk_header
      high_risk_header extreme_risk_header)

theorem get_mitigation_strategy_tiers_witness:
  "prefix ''[LOW RISK]'' (get_mitigation_strategy 19.9 True ''New York, USA'' 12)
   \<and> prefix ''[MODERATE RISK]'' (get_mitigation_strategy 20.0 True ''New York, USA'' 12)
   \<and> prefix ''[MODERATE RISK]'' (get_mitigation_strategy 49.9 True ''New York, USA'' 12)
   \<and> prefix ''[HIGH RISK]'' (get_mitigation_strategy 50.0 True ''New York, USA'' 12)
   \<and> prefix ''[HIGH RISK]'' (get_mitigation_strategy 79.9 True ''New York, USA'' 12)
   \<and> prefix ''[EXTREME RISK]'' (get_mitigation_strategy 80.0 True ''New York, USA'' 12)"
proof (intro conjI)
  note t = get_mitigation_strategy_tiers
  have 1: "(19.9::real) < 20" by simp
  show "prefix ''[LOW RISK]'' (get_mitigation_strategy 19.9 True ''New York, USA'' 12)"
    by (rule t[THEN conjunct1, THEN mp, THEN conjunct2, OF 1])
  have 2: "(20::real) \<le> 20.0 \<and> (20.0::real) < 50" by simp
  show "prefix ''[MODERATE RISK]'' (get_mitigation_strategy 20.0 True ''New York, USA'' 12)"
    by (rule t[THEN conjunct2, THEN conjunct1, THEN mp, THEN conjunct2, OF 2])
  have 3: "(20::real) \<le> 49.9 \<and> (49.9::real) < 50" by simp
  show "prefix ''[MODERATE RISK]'' (get_mitigation_strategy 49.9 True ''New York, USA'' 12)"
    by (rule t[THEN conjunct2, THEN conjunct1, THEN mp, THEN conjunct2, OF 3])
  have 4: "(50::real) \<le> 50.0 \<and> (50.0::real) < 80" by simp
  show "prefix ''[HIGH RISK]'' (get_mitigation_strategy 50.0 True ''New York, USA'' 12)"
    by (rule t[THEN conjunct2, THEN conjunct2, THEN conjunct1, THEN mp, THEN conjunct2, OF 4])
  have 5: "(50::real) \<le> 79.9 \<and> (79.9::real) < 80" by simp
  show "prefix ''[HIGH RISK]'' (get_mitigation_strategy 79.9 True ''New York, USA'' 12)"
    by (rule t[THEN conjunct2, THEN conjunct2, THEN conjunct1, THEN mp, THEN conjunct2, OF 5])
  have 6: "(80::real) \<le> 80.0" by simp
  show "prefix ''[EXTREME RISK]'' (get_mitigation_strategy 80.0 True ''New York, USA'' 12)"
    by (rule t[THEN conjunct2, THEN conjunct2, THEN conjunct2, THEN mp, THEN conjunct2, OF 6])
qed

section \<open>The batch collector\<close>

lemma MITIGATION_STRATEGIES_length: "length MITIGATION_STRATEGIES = 20"
  by (simp add: MITIGATION_STRATEGIES_def)

lemma calculate_risk_factor_range:
  "0 \<le> calculate_risk_factor d v dst" "calculate_risk_factor d v dst \<le> 100"
proof -
  let ?x = "min 100 (max 0 (0.5 * (4 / 3 * pi * (d / 2) ^ 3 * 3000) * (v * 1000) ^ 2
      / (4.184 * 10 ^ 15) * 0.5 + (10 ^ 7 - dst) / 10 ^ 5))"
  have x: "0 \<le> ?x" "?x \<le> 100" by simp_all
  have c: "calculate_risk_factor d v dst = py_round ?x 1"
    by (simp only: calculate_risk_factor_def Let_def)
  show "0 \<le> calculate_risk_factor d v dst" unfolding c using x by (rule py_round_1_range)
  show "calculate_risk_factor d v dst \<le> 100" unfolding c using x by (rule py_round_1_range)
qed

text \<open>
  \<^bold>\<open>C9.\<close> For a risk in \<open>[0, 100]\<close>, \<open>choose_mitigation\<close> computes the index
  \<open>min 19 (int (risk / 5))\<close>, which is a valid index of the 20 strategies, and returns the
  strategy at that index; it raises nothing. Every value of \<open>calculate_risk_factor\<close> is such
  a risk.
\<close>

theorem choose_mitigation_total:
  assumes "0 \<le> risk" and "risk \<le> 100"
  shows "length MITIGATION_STRATEGIES = 20
     \<and> (\<exists>i<20. int i = min 19 (py_int (risk / 5))
           \<and> choose_mitigation risk = Inr (MITIGATION_STRATEGIES ! i))
     \<and> 0 \<le> calculate_risk_factor d v dst \<and> calculate_risk_factor d v dst \<le> 100"
proof -
  define k where "k = min 19 (py_int (risk / 5))"
  have "0 \<le> risk / 5" using assms(1) by simp
  then have "py_int (risk / 5) = \<lfloor>risk / 5\<rfloor>" by (simp add: py_int_def)
  moreover have "0 \<le> \<lfloor>risk / 5\<rfloor>" using assms(1) by simp
  ultimately have k: "0 \<le> k" "k \<le> 19" by (simp_all add: k_def)
  have c: "choose_mitigation risk = py_index MITIGATION_STRATEGIES k"
    by (simp add: choose_mitigation_def Let_def MITIGATION_STRATEGIES_length k_def)
  have "py_index MITIGATION_STRATEGIES k = Inr (MITIGATION_STRATEGIES ! nat k)"
    using k by (simp add: py_index_def MITIGATION_STRATEGIES_length)
  then have "choose_mitigation risk = Inr (MITIGATION_STRATEGIES ! nat k)" by (simp only: c)
  moreover have "nat k < 20" "int (nat k) = min 19 (py_int (risk / 5))"
    using k by (simp_all add: k_def)
  ultimately have "\<exists>i<20. int i = min 19 (py_int (risk / 5))
           \<and> choose_mitigation risk = Inr (MITIGATION_STRATEGIES ! i)"
    by blast
  then show ?thesis
    using MITIGATION_STRATEGIES_length calculate_risk_factor_range[of d v dst] by simp
qed

theorem choose_mitigation_total_witness:
  "(0::real) \<le> 100 \<and> (100::real) \<le> 100
   \<and> min 19 (py_int (100 / 5)) = 19
   \<and> choose_mitigation 100 = Inr (MITIGATION_STRATEGIES ! 19)
   \<and> MITIGATION_STRATEGIES ! 19 = ''Research into long-term planetary defense strategies.''"
proof -
  have h: "(0::real) \<le> 100" "(100::real) \<le> 100" by simp_all
  have m: "min 19 (py_int (100 / 5)) = 19" by (simp add: py_int_def)
  from choose_mitigation_total[OF h, of 1 1 1]
  obtain i where "i < 20" and i: "int i = min 19 (py_int (100 / 5))"
    and c: "choose_mitigation 100 = Inr (MITIGATION_STRATEGIES ! i)"
    by blast
  have "int i = 19" using i m by (simp only:)
  then have "i = 19" by simp
  then have c': "choose_mitigation 100 = Inr (MITIGATION_STRATEGIES ! 19)"
    using c by (simp only:)
  have l: "MITIGATION_STRATEGIES ! 19 = ''Research into long-term planetary defense strategies.''"
    unfolding MITIGATION_STRATEGIES_def by code_simp
  from h m c' l show ?thesis by (intro conjI)
qed


section \<open>Numeric bounds for the worked example\<close>


lemma sum_lessThan_7:
  fixes f :: "nat \<Rightarrow> real"
  shows "(\<Sum>m<7. f m) = f 0 + f 1 + f 2 + f 3 + f 4 + f 5 + f 6"
  by (simp add: eval_nat_numeral)

lemma sin_coeff_values:
  "sin_coeff 0 = 0" "sin_coeff 1 = 1" "sin_coeff 2 = 0" "sin_coeff 3 = - 1 / 6"
  "sin_coeff 4 = 0" "sin_coeff 5 = 1 / 120" "sin_coeff 6 = 0"
  by (simp_all add: sin_coeff_def fact_numeral)

lemma sin_poly_7:
  fixes x :: real
  shows "(\<Sum>m<7. sin_coeff m * x ^ m) = x - x ^ 3 / 6 + x ^ 5 / 120"
  unfolding sum_lessThan_7 sin_coeff_values by simp

lemma sin_approx_7:
  fixes x :: real
  shows "\<bar>sin x - (x - x ^ 3 / 6 + x ^ 5 / 120)\<bar> \<le> \<bar>x\<bar> ^ 7 / 5040"
  using Maclaurin_sin_bound[of x 7] unfolding sin_poly_7 by (simp add: fact_numeral)

lemma sin_lower: "sin (5235 / 10000 :: real) < 1 / 2"
proof -
  have "sin (5235 / 10000 :: real) \<le> (5235 / 10000 - (5235 / 10000) ^ 3 / 6 + (5235 / 10000) ^ 5 / 120) + \<bar>5235 / 10000\<bar> ^ 7 / 5040"
    using sin_approx_7[of "5235 / 10000"] by linarith
  also have "\<dots> < 1 / 2" by (simp add: power_divide)
  finally show ?thesis .
qed

lemma sin_upper: "1 / 2 < sin (5238 / 10000 :: real)"
proof -
  have "(5238 / 10000 - (5238 / 10000) ^ 3 / 6 + (5238 / 10000) ^ 5 / 120) - \<bar>5238 / 10000\<bar> ^ 7 / 5040 \<le> sin (5238 / 10000 :: real)"
    using sin_approx_7[of "5238 / 10000"] by linarith
  moreover have "1 / 2 < (5238 / 10000 - (5238 / 10000) ^ 3 / 6 + (5238 / 10000) ^ 5 / 120) - \<bar>5238 / 10000 :: real\<bar> ^ 7 / 5040" by (simp add: power_divide)
  ultimately show ?thesis by linarith
qed


lemma pi_lower: "3.141 < pi"
proof -
  have "sin (5235 / 10000 :: real) < sin (pi / 6)" using sin_lower by (simp add: sin_30)
  moreover have "- (pi / 2) \<le> 5235 / 10000" "5235 / 10000 \<le> pi / 2" "- (pi / 2) \<le> pi / 6" "pi / 6 \<le> pi / 2"
    using pi_ge_two by simp_all
  ultimately have "5235 / 10000 < pi / 6" using sin_mono_less_eq by blast
  then show ?thesis by simp
qed

lemma pi_upper: "pi < 3.143"
proof -
  have "sin (pi / 6) < sin (5238 / 10000 :: real)" using sin_upper by (simp add: sin_30)
  moreover have "- (pi / 2) \<le> 5238 / 10000" "5238 / 10000 \<le> pi / 2" "- (pi / 2) \<le> pi / 6" "pi / 6 \<le> pi / 2"
    using pi_ge_two by simp_all
  ultimately have "pi / 6 < 5238 / 10000" using sin_mono_less_eq by blast
  then show ?thesis by simp
qed


lemma sqrt2_bounds: "1.4142 \<le> sqrt 2" "sqrt 2 \<le> 1.4143"
proof -
  have "(1.4142::real)\<^sup>2 \<le> 2" by (simp add: power2_eq_square)
  then show "1.4142 \<le> sqrt 2" by (rule real_le_rsqrt)
  have "(2::real) \<le> 1.4143\<^sup>2" by (simp add: power2_eq_square)
  then show "sqrt 2 \<le> 1.4143" by (intro real_le_lsqrt) simp_all
qed

lemma pi_sqrt2_bounds: "4.442 \<le> pi * sqrt 2" "pi * sqrt 2 \<le> 4.4452"
proof -
  have "3.141 * 1.4142 \<le> pi * sqrt 2"
    using pi_lower sqrt2_bounds(1) by (intro mult_mono) simp_all
  then show "4.442 \<le> pi * sqrt 2" by simp
  have "pi * sqrt 2 \<le> 3.143 * 1.4143"
    using pi_upper sqrt2_bounds(2) by (intro mult_mono) simp_all
  then show "pi * sqrt 2 \<le> 4.4452" by simp
qed

lemma example_mass: "mass_of 100 3000 = 500000000 * pi"
  by (simp add: mass_of_def)

lemma example_energy_j: "energy_j_of 100 20 45 3000 = 5 * 10 ^ 16 * (pi * sqrt 2)"
proof -
  have "radians 45 = pi / 4" by (simp add: radians_def)
  then have "sin (radians 45) = sqrt 2 / 2" by (simp only: sin_45)
  then show ?thesis by (simp add: energy_j_of_def example_mass)
qed

lemma example_energy_mt: "energy_mt_of 100 20 45 3000 = 5 * 10 ^ 16 * (pi * sqrt 2) / (4.184 * 10 ^ 15)"
  by (simp only: energy_mt_of_def example_energy_j)

lemma example_energy_mt_bounds:
  "52.5 \<le> energy_mt_of 100 20 45 3000" "energy_mt_of 100 20 45 3000 \<le> 53.5"
  using pi_sqrt2_bounds by (simp_all add: example_energy_mt field_simps)

lemma example_nearest:
  "find_nearest_city MAJOR_CITIES 40.7128 (- 74.0060) = Inr (''New York, USA'', Finite 0)"
proof -
  have "(''New York, USA'', (40.7128, - 74.0060, 8336817)) \<in> set MAJOR_CITIES"
    by (simp add: MAJOR_CITIES_def)
  from find_nearest_city_at_listed[OF this MAJOR_CITIES_lat_range MAJOR_CITIES_lat_distinct]
  show ?thesis by (simp add: entry_lat_def entry_lon_def entry_name_def)
qed

lemma simulate_result_fields:
  assumes "0 \<le> mass_of d rho" and "0 \<le> v" and "0 \<le> sin (radians ang)"
  shows "\<exists>r. simulate_meteor_impact cities d v dst lat lon ang rho = Inr r
     \<and> find_nearest_city cities lat lon = Inr (nearest_city r, city_distance_km r)
     \<and> mass_kg r = mass_of d rho
     \<and> impact_energy_j r = energy_j_of d v ang rho
     \<and> impact_energy_mt r = energy_mt_of d v ang rho
     \<and> damage_radius_km r = damage_radius_of d v ang rho
     \<and> impact_classification r = fst (labels_of (energy_mt_of d v ang rho))
     \<and> casualty_estimate r = snd (labels_of (energy_mt_of d v ang rho))
     \<and> city_affected r = float_le (city_distance_km r) (damage_radius_of d v ang rho)"
  using simulate_result[OF assms, of cities lat lon dst] by force

text \<open>
  \<^bold>\<open>C1.\<close> The worked example: diameter 100 m, velocity 20 km/s, distance 50000 km, angle
  45 degrees, density 3000 kg per cubic metre at the coordinates of New York. The mass is
  1.571e9 kg to four digits, the energy 2.22e17 J to three digits, that is 53 megatons to
  the nearest unit; the nearest city is New York at distance 0.00, it is affected, and the
  classification is that of the tier from 1 to below 1000 megatons.
\<close>

theorem simulate_new_york_example:
  "\<exists>r. simulate_meteor_impact MAJOR_CITIES 100 20 50000 40.7128 (- 74.0060) 45 3000 = Inr r
     \<and> \<bar>mass_kg r - 1.571 * 10 ^ 9\<bar> \<le> 5 * 10 ^ 5
     \<and> \<bar>impact_energy_j r - 2.22 * 10 ^ 17\<bar> \<le> 5 * 10 ^ 14
     \<and> \<bar>impact_energy_mt r - 53\<bar> \<le> 1 / 2
     \<and> nearest_city r = ''New York, USA''
     \<and> city_distance_km r = Finite 0
     \<and> city_affected r
     \<and> 1 \<le> impact_energy_mt r \<and> impact_energy_mt r < 1000
     \<and> impact_classification r = class_city
     \<and> casualty_estimate r = ''10,000s-100,000s (regional catastrophe)''"
proof -
  have g: "0 \<le> mass_of 100 3000" "(0::real) \<le> 20" "0 \<le> sin (radians 45)"
    using sin_radians_pos[of 45] by (simp_all add: example_mass)
  obtain r where r: "simulate_meteor_impact MAJOR_CITIES 100 20 50000 40.7128 (- 74.0060) 45 3000 = Inr r"
    and f: "find_nearest_city MAJOR_CITIES 40.7128 (- 74.0060) = Inr (nearest_city r, city_distance_km r)"
    and m: "mass_kg r = mass_of 100 3000"
    and ej: "impact_energy_j r = energy_j_of 100 20 45 3000"
    and em: "impact_energy_mt r = energy_mt_of 100 20 45 3000"
    and ic: "impact_classification r = fst (labels_of (energy_mt_of 100 20 45 3000))"
    and ce: "casualty_estimate r = snd (labels_of (energy_mt_of 100 20 45 3000))"
    and ca': "city_affected r = float_le (city_distance_km r) (damage_radius_of 100 20 45 3000)"
    using simulate_result_fields[OF g, of MAJOR_CITIES 50000 "40.7128" "- 74.0060"] by blast
  have "Inr (''New York, USA'', Finite 0) = (Inr (nearest_city r, city_distance_km r) :: py_error + string \<times> pyfloat)"
    using f by (simp only: example_nearest)
  then have nc: "nearest_city r = ''New York, USA''" and cd: "city_distance_km r = Finite 0"
    by simp_all
  have ca: "city_affected r = float_le (Finite 0) (damage_radius_of 100 20 45 3000)"
    by (simp only: ca' cd)
  have 1: "\<bar>mass_kg r - 1.571 * 10 ^ 9\<bar> \<le> 5 * 10 ^ 5"
    using pi_lower pi_upper by (simp add: m example_mass abs_le_iff)
  have 2: "\<bar>impact_energy_j r - 2.22 * 10 ^ 17\<bar> \<le> 5 * 10 ^ 14"
    using pi_sqrt2_bounds by (simp add: ej example_energy_j abs_le_iff)
  have 3: "\<bar>impact_energy_mt r - 53\<bar> \<le> 1 / 2"
    unfolding em using example_energy_mt_bounds by linarith
  have 4: "1 \<le> impact_energy_mt r" "impact_energy_mt r < 1000"
    using example_energy_mt_bounds by (simp_all add: em)
  have 5: "city_affected r"
    using damage_radius_of_nonneg[of 100 20 45 3000] by (simp add: ca)
  have l: "labels_of (energy_mt_of 100 20 45 3000)
      = (class_city, ''10,000s-100,000s (regional catastrophe)'')"
    using 4 by (simp add: labels_of_def em)
  have 6: "impact_classification r = class_city"
    "casualty_estimate r = ''10,000s-100,000s (regional catastrophe)''"
    by (simp_all add: ic ce l)
  show ?thesis using r 1 2 3 nc cd 5 4 6 by blast
qed


section \<open>Sharper bounds on pi\<close>









section \<open>Rounding\<close>



lemma round_half_even_error: "\<bar>of_int (round_half_even y) - y\<bar> \<le> 1 / 2"
proof -
  have "of_int \<lfloor>y\<rfloor> \<le> y" "y < of_int \<lfloor>y\<rfloor> + 1" by linarith+
  then show ?thesis by (auto simp add: round_half_even_def Let_def)
qed

lemma py_round_1_error: "\<bar>py_round x 1 - x\<bar> \<le> 1 / 20"
proof -
  have "\<bar>of_int (round_half_even (x * 10)) - x * 10\<bar> \<le> 1 / 2"
    by (rule round_half_even_error)
  then have "\<bar>of_int (round_half_even (x * 10)) / 10 - x\<bar> \<le> 1 / 20"
    by (simp add: abs_le_iff field_simps)
  then show ?thesis by (simp add: py_round_def)
qed

section \<open>Distances along the equator\<close>







section \<open>The nearest-city lookup: what it returns\<close>




section \<open>Fields of a returned result\<close>

lemma simulate_Inr_result_fields:
  assumes "simulate_meteor_impact cities d v dst lat lon ang rho = Inr r"
  shows "find_nearest_city cities lat lon = Inr (nearest_city r, city_distance_km r)"
    and "proximity_risk r = proximity_of dst"
    and "impact_energy_mt r = energy_mt_of d v ang rho"
    and "damage_radius_km r = damage_radius_of d v ang rho"
    and "impact_risk r = impact_risk_of (energy_mt_of d v ang rho) (damage_radius_of d v ang rho)"
    and "combined_risk_factor r = py_round (min 100 (max 0 (proximity_of dst * 0.4
          + impact_risk_of (energy_mt_of d v ang rho) (damage_radius_of d v ang rho) * 0.6))) 1"
    and "city_affected r = float_le (city_distance_km r) (damage_radius_of d v ang rho)"
  using simulate_result[OF simulate_Inr_guards[OF assms], of cities lat lon dst] assms
  by auto

section \<open>Risk values of a returned result\<close>

text \<open>
  \<^bold>\<open>C3.\<close> Every result that the simulator returns on valid parameters has its proximity
  risk, impact risk and combined risk factor in \<open>[0, 100]\<close>; the combined risk factor is a
  multiple of \<open>1/10\<close> that differs by less than \<open>1/10\<close> from the clamped blend
  \<open>0.4 * proximity + 0.6 * impact\<close> of the two returned risks.
\<close>

theorem simulate_risks_in_range:
  assumes "valid_params d v dst lat lon ang rho"
    and "simulate_meteor_impact cities d v dst lat lon ang rho = Inr r"
  shows "0 \<le> proximity_risk r \<and> proximity_risk r \<le> 100
     \<and> 0 \<le> impact_risk r \<and> impact_risk r \<le> 100
     \<and> 0 \<le> combined_risk_factor r \<and> combined_risk_factor r \<le> 100
     \<and> (\<exists>k::int. combined_risk_factor r = of_int k / 10)
     \<and> \<bar>combined_risk_factor r
          - min 100 (max 0 (proximity_risk r * 0.4 + impact_risk r * 0.6))\<bar> < 1 / 10"
proof -
  note f = simulate_Inr_result_fields[OF assms(2)]
  let ?b = "min 100 (max 0 (proximity_risk r * 0.4 + impact_risk r * 0.6))"
  note ir = impact_risk_of_range[OF damage_radius_of_nonneg, of "energy_mt_of d v ang rho" d v ang rho]
  have c: "combined_risk_factor r = py_round ?b 1"
    by (simp only: f(2,5,6))
  have "0 \<le> ?b" "?b \<le> 100" by simp_all
  then have cr: "0 \<le> combined_risk_factor r" "combined_risk_factor r \<le> 100"
    unfolding c by (rule py_round_1_range)+
  have t: "\<exists>k::int. combined_risk_factor r = of_int k / 10"
    unfolding c by (rule py_round_1_tenths)
  have "\<bar>combined_risk_factor r - ?b\<bar> \<le> 1 / 20"
    unfolding c by (rule py_round_1_error)
  then have e: "\<bar>combined_risk_factor r - ?b\<bar> < 1 / 10" by linarith
  have pr: "0 \<le> proximity_risk r" "proximity_risk r \<le> 100"
    using proximity_of_range[of dst] by (simp_all add: f(2))
  have ir': "0 \<le> impact_risk r" "impact_risk r \<le> 100"
    using ir by (simp_all add: f(5))
  show ?thesis using pr ir' cr t e by blast
qed

theorem simulate_risks_in_range_witness:
  "valid_params 100 20 50000 40.7128 (- 74.0060) 45 3000
   \<and> (\<exists>r. simulate_meteor_impact MAJOR_CITIES 100 20 50000 40.7128 (- 74.0060) 45 3000 = Inr r
     \<and> 0 \<le> proximity_risk r \<and> proximity_risk r \<le> 100
     \<and> 0 \<le> impact_risk r \<and> impact_risk r \<le> 100
     \<and> 0 \<le> combined_risk_factor r \<and> combined_risk_factor r \<le> 100
     \<and> (\<exists>k::int. combined_risk_factor r = of_int k / 10)
     \<and> \<bar>combined_risk_factor r
          - min 100 (max 0 (proximity_risk r * 0.4 + impact_risk r * 0.6))\<bar> < 1 / 10)"
proof -
  have v: "valid_params 100 20 50000 40.7128 (- 74.0060) 45 3000"
    by (simp add: valid_params_def)
  obtain r where r: "simulate_meteor_impact MAJOR_CITIES 100 20 50000 40.7128 (- 74.0060) 45 3000 = Inr r"
    using simulate_result_fields[OF less_imp_le[OF valid_params_guards(1)[OF v]]
        less_imp_le[OF valid_params_guards(2)[OF v]] less_imp_le[OF valid_params_guards(3)[OF v]],
        of MAJOR_CITIES 50000 "40.7128" "- 74.0060"]
    by blast
  from simulate_risks_in_range[OF v r] v r show ?thesis by blast
qed

text \<open>
  \<^bold>\<open>C10.\<close> Every result that the simulator returns on valid parameters has an impact
  risk of at least 5: it is 5 when the energy is below 0.01 megatons and at least 20
  otherwise. So the combined risk factor is at least 3.0 and is never 0.
\<close>

theorem simulate_risk_floor:
  assumes "valid_params d v dst lat lon ang rho"
    and "simulate_meteor_impact cities d v dst lat lon ang rho = Inr r"
  shows "5 \<le> impact_risk r
     \<and> (impact_energy_mt r < 0.01 \<longrightarrow> impact_risk r = 5)
     \<and> (0.01 \<le> impact_energy_mt r \<longrightarrow> 20 \<le> impact_risk r)
     \<and> 3 \<le> combined_risk_factor r \<and> combined_risk_factor r \<noteq> 0"
proof -
  note f = simulate_Inr_result_fields[OF assms(2)]
  note ir = impact_risk_of_range[OF damage_radius_of_nonneg, of "energy_mt_of d v ang rho" d v ang rho]
  have i5: "5 \<le> impact_risk r" using ir(1) by (simp only: f(5))
  have lo: "impact_energy_mt r < 0.01 \<longrightarrow> impact_risk r = 5"
    by (simp add: f(3,5) impact_risk_of_def)
  have hi: "0.01 \<le> impact_energy_mt r \<longrightarrow> 20 \<le> impact_risk r"
    using damage_radius_of_nonneg[of d v ang rho]
    by (auto simp add: f(3,5) impact_risk_of_def min_def)
  have "3 \<le> proximity_of dst * 0.4
                + impact_risk_of (energy_mt_of d v ang rho) (damage_radius_of d v ang rho) * 0.6"
    using ir(1) proximity_of_range(1)[of dst] by simp
  then have "3 \<le> min 100 (max 0 (proximity_of dst * 0.4
                + impact_risk_of (energy_mt_of d v ang rho) (damage_radius_of d v ang rho) * 0.6))"
    by simp
  then have c3: "3 \<le> combined_risk_factor r" unfolding f(6) by (rule py_round_1_ge_3)
  then have "combined_risk_factor r \<noteq> 0" by simp
  with i5 lo hi c3 show ?thesis by blast
qed

lemma small_example_energy: "energy_mt_of (1 / 1000) (1 / 1000) 45 3000 < 0.01"
proof -
  have m: "mass_of (1 / 1000) 3000 = pi / 2000000" by (simp add: mass_of_def power_divide)
  have s: "sin (radians 45) \<le> 1" by simp
  have "energy_j_of (1 / 1000) (1 / 1000) 45 3000 = pi / 4000000 * sin (radians 45)"
    by (simp add: energy_j_of_def m)
  also have "\<dots> \<le> pi / 4000000 * 1" using s by (intro mult_left_mono) simp_all
  also have "\<dots> < 1" using pi_less_4 by simp
  finally have "energy_j_of (1 / 1000) (1 / 1000) 45 3000 < 1" .
  then have "energy_j_of (1 / 1000) (1 / 1000) 45 3000 / (4.184 * 10 ^ 15) < 1 / (4.184 * 10 ^ 15)"
    by (rule divide_strict_right_mono) simp
  also have "\<dots> < (0.01::real)" by simp
  finally show ?thesis by (simp only: energy_mt_of_def)
qed

lemma py_round_3: "py_round 3 1 = 3"
  using round_half_even_of_int[of 30] by (simp add: py_round_def)

text \<open>
  A grain of 1 mm at 1 m/s, a billion km away: the impact risk is 5 and the combined risk
  factor is exactly 3.0. The worked example of 53 megatons has an impact risk of at least 20.
\<close>

theorem simulate_risk_floor_witness:
  "valid_params (1 / 1000) (1 / 1000) (10 ^ 9) 0 0 45 3000
   \<and> (\<exists>r. simulate_meteor_impact MAJOR_CITIES (1 / 1000) (1 / 1000) (10 ^ 9) 0 0 45 3000 = Inr r
     \<and> impact_energy_mt r < 0.01 \<and> impact_risk r = 5
     \<and> combined_risk_factor r = 3 \<and> combined_risk_factor r \<noteq> 0)
   \<and> valid_params 100 20 50000 40.7128 (- 74.0060) 45 3000
   \<and> (\<exists>r. simulate_meteor_impact MAJOR_CITIES 100 20 50000 40.7128 (- 74.0060) 45 3000 = Inr r
     \<and> 0.01 \<le> impact_energy_mt r \<and> 20 \<le> impact_risk r)"
proof -
  have v: "valid_params (1 / 1000) (1 / 1000) (10 ^ 9) 0 0 45 3000"
    by (simp add: valid_params_def)
  obtain r where r: "simulate_meteor_impact MAJOR_CITIES (1 / 1000) (1 / 1000) (10 ^ 9) 0 0 45 3000 = Inr r"
    using simulate_result_fields[OF less_imp_le[OF valid_params_guards(1)[OF v]]
        less_imp_le[OF valid_params_guards(2)[OF v]] less_imp_le[OF valid_params_guards(3)[OF v]],
        of MAJOR_CITIES "10 ^ 9" 0 0]
    by blast
  note f = simulate_Inr_result_fields[OF r]
  note t = simulate_risk_floor[OF v r]
  have e: "impact_energy_mt r < 0.01" unfolding f(3) by (rule small_example_energy)
  have i: "impact_risk r = 5" using t e by blast
  have i': "impact_risk_of (energy_mt_of (1 / 1000) (1 / 1000) 45 3000)
      (damage_radius_of (1 / 1000) (1 / 1000) 45 3000) = 5"
    using i by (simp only: f(5))
  have p: "proximity_of (10 ^ 9) = 0" by (simp add: proximity_of_def)
  have b: "min 100 (max 0 ((0::real) * 0.4 + 5 * 0.6)) = 3" by simp
  have c: "combined_risk_factor r = 3"
    unfolding f(6) i' p b by (rule py_round_3)
  have n: "combined_risk_factor r \<noteq> 0" using t by blast
  have v2: "valid_params 100 20 50000 40.7128 (- 74.0060) 45 3000"
    by (simp add: valid_params_def)
  obtain r2 where r2: "simulate_meteor_impact MAJOR_CITIES 100 20 50000 40.7128 (- 74.0060) 45 3000 = Inr r2"
    using simulate_result_fields[OF less_imp_le[OF valid_params_guards(1)[OF v2]]
        less_imp_le[OF valid_params_guards(2)[OF v2]] less_imp_le[OF valid_params_guards(3)[OF v2]],
        of MAJOR_CITIES 50000 "40.7128" "- 74.0060"]
    by blast
  have "impact_energy_mt r2 = energy_mt_of 100 20 45 3000"
    by (rule simulate_Inr_result_fields(3)[OF r2])
  then have e2: "0.01 \<le> impact_energy_mt r2" using example_energy_mt_bounds(1) by simp
  have i2: "20 \<le> impact_risk r2" using simulate_risk_floor[OF v2 r2] e2 by blast
  show ?thesis using v r e i c n v2 r2 e2 i2 by blast
qed




end
